theory Spec2Isabelle
  imports Complex_Main "HOL-Library.Char_ord" "HOL-Library.List_Lexorder"
begin

section \<open>The mood engine of \<^verbatim>\<open>src/main.py\<close>\<close>

text \<open>
  A stored record is the JSON object \<^verbatim>\<open>{"happiness": int, "last_pet": float}\<close>.
  Python's integers are unbounded, so \<open>happiness\<close> is an \<open>int\<close>. Timestamps are the
  readings of \<^verbatim>\<open>time.time()\<close>, seconds since the epoch with a fractional part; they
  are modelled as exact rationals, so the rounding of binary floating point is not part
  of the model.
\<close>

record mood_record =
  happiness :: int
  last_pet :: rat

definition DECAY_PER_HOUR :: int where
  "DECAY_PER_HOUR = 4"

definition BOOST_ON_PET :: int where
  "BOOST_ON_PET = 5"

text \<open>
  Python's \<^verbatim>\<open>int(x)\<close> on a float drops the fractional part, rounding towards zero:
  \<^verbatim>\<open>int(2.7) == 2\<close> and \<^verbatim>\<open>int(-2.7) == -2\<close>.
\<close>

definition py_int :: "rat \<Rightarrow> int" where
  "py_int x = (if 0 \<le> x then \<lfloor>x\<rfloor> else \<lceil>x\<rceil>)"

text \<open>
  \<^verbatim>\<open>
  def default_state():
      now = time.time()
      return {"happiness": 80, "last_pet": now}

  def apply_decay(rec):
      now = time.time()
      hours = (now - rec["last_pet"]) / 3600
      rec["happiness"] = max(0, rec["happiness"] - int(hours * DECAY_PER_HOUR))
      return rec
  \<close>
  Reading the clock is the only effect of either function besides the update of the
  record, so the reading \<open>now\<close> is their first argument here. \<open>apply_decay\<close> overwrites
  the field \<open>happiness\<close> of the record it was given and returns that same record; the
  model returns the updated record.
\<close>

definition default_state :: "rat \<Rightarrow> mood_record" where
  "default_state now = \<lparr>happiness = 80, last_pet = now\<rparr>"

definition apply_decay :: "rat \<Rightarrow> mood_record \<Rightarrow> mood_record" where
  "apply_decay now rec =
     (let hours = (now - last_pet rec) / 3600
      in rec\<lparr>happiness := max 0 (happiness rec - py_int (hours * of_int DECAY_PER_HOUR))\<rparr>)"

section \<open>Authentication: \<^verbatim>\<open>src/validate.py\<close>\<close>

text \<open>
  \<^verbatim>\<open>get_init_data\<close> delegates to \<^verbatim>\<open>InitData.parse\<close> and \<^verbatim>\<open>InitData.validate\<close> of the
  package \<^verbatim>\<open>init_data_py\<close>, whose code is not among the repository's files. Both are
  modelled from section 4.1 of the specification; \<^verbatim>\<open>get_init_data\<close> itself is modelled
  from its source.
\<close>

text \<open>
  Modelled from the spec: the primitives that the steps of section 4.1 name and that
  \<^verbatim>\<open>init_data_py\<close> takes from Python's libraries. They are parameters of the model: the
  URL-encoded query-string parser (\<open>None\<close> when parsing fails), the reader of the integer
  \<open>id\<close> of a JSON-encoded user object, the reader of a decimal integer, SHA-256 and
  HMAC-SHA256 (key first). Byte strings and text are both \<open>string\<close>.
\<close>

record primitives =
  parse_qsl :: "string \<Rightarrow> (string \<times> string) list option"
  json_user_id :: "string \<Rightarrow> int option"
  int_of_str :: "string \<Rightarrow> int option"
  sha256 :: "string \<Rightarrow> string"
  hmac_sha256 :: "string \<Rightarrow> string \<Rightarrow> string"

text \<open>
  Modelled from the spec: the parsed token, the \<^verbatim>\<open>InitData\<close> object of \<^verbatim>\<open>init_data_py\<close>,
  with what steps 2 and 3 extract: the fields other than \<open>hash\<close> in the order received,
  the \<open>hash\<close> field, the issuance timestamp and, when the token has a \<open>user\<close> field, the
  integer \<open>id\<close> of the user.
\<close>

record init_data =
  token_fields :: "(string \<times> string) list"
  hash :: string
  auth_date :: int
  user :: "int option"

text \<open>
  Modelled from the spec: the hex encoding of the digest in step 6, lower-case as Python's
  \<^verbatim>\<open>hexdigest()\<close> gives it, and the joining of strings with a separator in step 4.
\<close>

definition hex_digit :: "nat \<Rightarrow> char" where
  "hex_digit n = ''0123456789abcdef'' ! (n mod 16)"

definition hexdigest :: "string \<Rightarrow> string" where
  "hexdigest bs =
     concat (map (\<lambda>c. [hex_digit (of_char c div 16), hex_digit (of_char c mod 16)]) bs)"

fun join :: "string \<Rightarrow> string list \<Rightarrow> string" where
  "join sep [] = []"
| "join sep [x] = x"
| "join sep (x # y # ys) = x @ sep @ join sep (y # ys)"

text \<open>
  Modelled from the spec: the canonical data-check string of step 4 of section 4.1
  (computed inside \<^verbatim>\<open>init_data_py\<close>): the fields other than \<open>hash\<close>, sorted
  lexicographically by key, joined as \<open>key=value\<close> with newline separators.
\<close>

definition data_check_string :: "(string \<times> string) list \<Rightarrow> string" where
  "data_check_string fs =
     join [CHR 0x0A] (map (\<lambda>kv. fst kv @ ''='' @ snd kv) (sort_key fst fs))"

text \<open>
  Modelled from the spec: \<^verbatim>\<open>InitData.parse\<close> of \<^verbatim>\<open>init_data_py\<close>, steps 1 to 3 of
  section 4.1. \<open>None\<close> is the spec's \<open>Malformed\<close>, the exception
  \<^verbatim>\<open>UnexpectedFormatError\<close> that \<^verbatim>\<open>get_init_data\<close> catches: the query string does not
  parse or has no field; there is no \<open>hash\<close> field; \<open>auth_date\<close> is absent or not an
  integer; a \<open>user\<close> field is present and is not a JSON object with an integer \<open>id\<close>.
\<close>

definition InitData_parse :: "primitives \<Rightarrow> string \<Rightarrow> init_data option" where
  "InitData_parse P raw =
     (case parse_qsl P raw of
        None \<Rightarrow> None
      | Some fs \<Rightarrow>
          if fs = [] then None
          else
            (case map_of fs ''hash'' of
               None \<Rightarrow> None
             | Some h \<Rightarrow>
                 let rest = filter (\<lambda>kv. fst kv \<noteq> ''hash'') fs in
                 (case map_of rest ''auth_date'' of
                    None \<Rightarrow> None
                  | Some a \<Rightarrow>
                      (case int_of_str P a of
                         None \<Rightarrow> None
                       | Some issued \<Rightarrow>
                           (case map_of rest ''user'' of
                              None \<Rightarrow>
                                Some \<lparr>token_fields = rest, hash = h, auth_date = issued, user = None\<rparr>
                            | Some u \<Rightarrow>
                                (case json_user_id P u of
                                   None \<Rightarrow> None
                                 | Some n \<Rightarrow>
                                     Some \<lparr>token_fields = rest, hash = h, auth_date = issued,
                                           user = Some n\<rparr>))))))"

text \<open>
  Modelled from the spec: the outcomes of steps 6 to 8 of section 4.1 for a token that
  has parsed.
\<close>

datatype verdict = Valid | InvalidSignature | Expired

text \<open>
  Modelled from the spec: steps 5 and 6 of section 4.1, computed inside \<^verbatim>\<open>init_data_py\<close>.
  The key is the SHA-256 of the shared secret; the signature is the hex-encoded
  HMAC-SHA256 of the data-check string under that key.
\<close>

definition sign :: "primitives \<Rightarrow> string \<Rightarrow> init_data \<Rightarrow> string" where
  "sign P bot_token init =
     hexdigest (hmac_sha256 P (sha256 P bot_token) (data_check_string (token_fields init)))"

text \<open>
  Modelled from the spec: steps 6 to 8 of section 4.1, the part of \<^verbatim>\<open>InitData.validate\<close>
  of \<^verbatim>\<open>init_data_py\<close> after parsing. The signature is compared first, the age second;
  \<open>now\<close> is the current time that step 7 reads. \<^verbatim>\<open>validate\<close> returns a truth value, true
  for a valid token only.
\<close>

definition verify_parsed :: "primitives \<Rightarrow> init_data \<Rightarrow> string \<Rightarrow> int \<Rightarrow> rat \<Rightarrow> verdict" where
  "verify_parsed P init bot_token lifetime now =
     (if hash init \<noteq> sign P bot_token init then InvalidSignature
      else if of_int (auth_date init + lifetime) < now then Expired
      else Valid)"

definition InitData_validate :: "primitives \<Rightarrow> init_data \<Rightarrow> string \<Rightarrow> int \<Rightarrow> rat \<Rightarrow> bool" where
  "InitData_validate P init bot_token lifetime now =
     (verify_parsed P init bot_token lifetime now = Valid)"

text \<open>
  \<^verbatim>\<open>
  def get_init_data(raw, bot_token, *, lifetime=3600, request=None):
      try:
          init = InitData.parse(raw)
      except errors.UnexpectedFormatError:
          raise HTTPException(status_code=status.HTTP_400_BAD_REQUEST,
              detail="initData missing or malformed - open this page inside Telegram")
      if not init.validate(bot_token, lifetime=lifetime):
          raise HTTPException(status_code=status.HTTP_403_FORBIDDEN,
              detail="initData signature invalid or expired")
      if request is not None:
          request.state.user_id = str(init.user.id)
      return init
  \<close>
  Both handlers call it without \<open>request\<close>, so that branch is not taken, and without
  \<open>lifetime\<close>, so the default of 3600 seconds applies. The dash of the first message is
  the three bytes of U+2013 in UTF-8.
\<close>

datatype error = HTTPException nat string | AttributeError | ResponseValidationError

definition HTTP_400_BAD_REQUEST :: nat where
  "HTTP_400_BAD_REQUEST = 400"

definition HTTP_403_FORBIDDEN :: nat where
  "HTTP_403_FORBIDDEN = 403"

definition detail_malformed :: string where
  "detail_malformed =
     ''initData missing or malformed '' @ [CHR 0xE2, CHR 0x80, CHR 0x93]
       @ '' open this page inside Telegram''"

definition detail_forbidden :: string where
  "detail_forbidden = ''initData signature invalid or expired''"

definition lifetime_default :: int where
  "lifetime_default = 3600"

definition get_init_data ::
  "primitives \<Rightarrow> string \<Rightarrow> string \<Rightarrow> int \<Rightarrow> rat \<Rightarrow> error + init_data" where
  "get_init_data P raw bot_token lifetime now =
     (case InitData_parse P raw of
        None \<Rightarrow> Inl (HTTPException HTTP_400_BAD_REQUEST detail_malformed)
      | Some init \<Rightarrow>
          if \<not> InitData_validate P init bot_token lifetime now
          then Inl (HTTPException HTTP_403_FORBIDDEN detail_forbidden)
          else Inr init)"

section \<open>Storage and request handlers of \<^verbatim>\<open>src/main.py\<close>\<close>

text \<open>
  The durable store is the file \<^verbatim>\<open>state.json\<close>: either text that is not JSON (the empty
  file that start-up creates, or a damaged one) or a JSON object from identity strings to
  records. \<^verbatim>\<open>read_db\<close> builds a fresh dictionary from the file on every call, so what a
  handler changes in that dictionary reaches the file only through \<^verbatim>\<open>write_db\<close>.
  The clock is the sequence of readings that successive calls of \<^verbatim>\<open>time.time()\<close> return.
\<close>

datatype file_content = Unparsable | Mapping "string \<rightharpoonup> mood_record"

record world =
  state_file :: file_content
  clock :: "nat \<Rightarrow> rat"

definition time_time :: "world \<Rightarrow> rat \<times> world" where
  "time_time w = (clock w 0, w\<lparr>clock := (\<lambda>n. clock w (Suc n))\<rparr>)"

text \<open>
  \<^verbatim>\<open>
  def read_db():
      try:
          with STATE_FILE.open() as f:
              return json.load(f)
      except json.JSONDecodeError:
          return {}

  def write_db(db):
      STATE_FILE.write_text(json.dumps(db, indent=1))
  \<close>
\<close>

definition read_db :: "world \<Rightarrow> (string \<rightharpoonup> mood_record)" where
  "read_db w = (case state_file w of Unparsable \<Rightarrow> Map.empty | Mapping m \<Rightarrow> m)"

definition write_db :: "(string \<rightharpoonup> mood_record) \<Rightarrow> world \<Rightarrow> world" where
  "write_db db w = w\<lparr>state_file := Mapping db\<rparr>"

text \<open>Python's \<^verbatim>\<open>str\<close> of an integer: its decimal digits, with a minus sign when negative.\<close>

fun str_nat :: "nat \<Rightarrow> string" where
  "str_nat n =
     (if n < 10 then [char_of (48 + n)]
      else str_nat (n div 10) @ [char_of (48 + n mod 10)])"

declare str_nat.simps [simp del]

definition str :: "int \<Rightarrow> string" where
  "str i = (if i < 0 then ''-'' @ str_nat (nat (- i)) else str_nat (nat i))"

text \<open>
  The first two lines of both handlers:
  \<^verbatim>\<open>
      init = get_init_data(payload.initData, BOT_TOKEN)
      uid = str(init.user.id)
  \<close>
  The current time that the validation compares the token's age with is one reading of
  the clock. A token without a \<open>user\<close> field has \<^verbatim>\<open>init.user\<close> equal to \<^verbatim>\<open>None\<close>, and
  reading its \<open>id\<close> raises \<^verbatim>\<open>AttributeError\<close>.
\<close>

definition authenticate :: "primitives \<Rightarrow> string \<Rightarrow> string \<Rightarrow> world \<Rightarrow> (error + string) \<times> world" where
  "authenticate P bot_token initData w =
     (let (now, w') = time_time w in
      case get_init_data P initData bot_token lifetime_default now of
        Inl e \<Rightarrow> (Inl e, w')
      | Inr init \<Rightarrow>
          (case user init of
             None \<Rightarrow> (Inl AttributeError, w')
           | Some n \<Rightarrow> (Inr (str n), w')))"

text \<open>
  \<^verbatim>\<open>
  async def state(payload):
      init = get_init_data(payload.initData, BOT_TOKEN)
      uid = str(init.user.id)
      db = read_db()
      rec = db.get(uid, default_state())
      rec = apply_decay(rec)
      return rec

  async def pet(payload):
      init = get_init_data(payload.initData, BOT_TOKEN)
      uid = str(init.user.id)
      db = read_db()
      rec = db.get(uid, default_state())
      rec = apply_decay(rec)  # decay first
      rec["happiness"] = min(100, rec["happiness"] + BOOST_ON_PET)
      rec["last_pet"] = time.time()
      db[uid] = rec
      write_db(db)
      return rec
  \<close>
  \<^verbatim>\<open>db.get(uid, default_state())\<close> evaluates its default, and so reads the clock, whether or
  not \<open>uid\<close> is a key of \<open>db\<close>. Both routes are declared with
  \<^verbatim>\<open>response_model=StateOut\<close>, where
  \<^verbatim>\<open>
  class StateOut(BaseModel):
      happiness: int = Field(ge=0, le=100)
      last_pet: float
  \<close>
  so the record a handler returns is validated after the handler has run, and one whose
  happiness is outside 0..100 is answered with a server error instead. The rate-limiting
  middleware, which can reject a request before its handler runs, is not part of the
  model.
\<close>

definition StateOut :: "mood_record \<Rightarrow> error + mood_record" where
  "StateOut rec =
     (if 0 \<le> happiness rec \<and> happiness rec \<le> 100 then Inr rec
      else Inl ResponseValidationError)"

definition state :: "primitives \<Rightarrow> string \<Rightarrow> string \<Rightarrow> world \<Rightarrow> (error + mood_record) \<times> world" where
  "state P bot_token initData w0 =
     (case authenticate P bot_token initData w0 of
        (Inl e, w1) \<Rightarrow> (Inl e, w1)
      | (Inr uid, w1) \<Rightarrow>
          (let db = read_db w1;
               (t_default, w2) = time_time w1;
               rec = (case db uid of None \<Rightarrow> default_state t_default | Some r \<Rightarrow> r);
               (t_decay, w3) = time_time w2;
               rec = apply_decay t_decay rec
           in (StateOut rec, w3)))"

definition pet :: "primitives \<Rightarrow> string \<Rightarrow> string \<Rightarrow> world \<Rightarrow> (error + mood_record) \<times> world" where
  "pet P bot_token initData w0 =
     (case authenticate P bot_token initData w0 of
        (Inl e, w1) \<Rightarrow> (Inl e, w1)
      | (Inr uid, w1) \<Rightarrow>
          (let db = read_db w1;
               (t_default, w2) = time_time w1;
               rec = (case db uid of None \<Rightarrow> default_state t_default | Some r \<Rightarrow> r);
               (t_decay, w3) = time_time w2;
               rec = apply_decay t_decay rec;
               rec = rec\<lparr>happiness := min 100 (happiness rec + BOOST_ON_PET)\<rparr>;
               (t_pet, w4) = time_time w3;
               rec = rec\<lparr>last_pet := t_pet\<rparr>;
               db = db(uid \<mapsto> rec);
               w5 = write_db db w4
           in (StateOut rec, w5)))"

section \<open>Concrete inputs\<close>

text \<open>
  Stand-ins for the primitives, to run the model on concrete tokens: a parser that knows
  five query strings, readers that know one user object and one timestamp, and small
  functions in place of the two hash functions. Under the secret \<open>''secret''\<close> the token
  \<open>''token''\<close> carries the right signature and \<open>''forged''\<close> the same fields with another.
\<close>

definition test_primitives :: primitives where
  "test_primitives =
     \<lparr>parse_qsl = (\<lambda>s.
        if s = ''token'' then
          Some [(''user'', ''u123''), (''auth_date'', ''1700000000''), (''hash'', ''24'')]
        else if s = ''forged'' then
          Some [(''user'', ''u123''), (''auth_date'', ''1700000000''), (''hash'', ''25'')]
        else if s = ''unsigned'' then
          Some [(''user'', ''u123''), (''auth_date'', ''1700000000'')]
        else if s = [] then Some []
        else None),
      json_user_id = (\<lambda>s. if s = ''u123'' then Some 123 else None),
      int_of_str = (\<lambda>s. if s = ''1700000000'' then Some 1700000000 else None),
      sha256 = (\<lambda>s. s),
      hmac_sha256 = (\<lambda>k m. [char_of (length k + length m)])\<rparr>"

definition test_init :: init_data where
  "test_init =
     \<lparr>token_fields = [(''user'', ''u123''), (''auth_date'', ''1700000000'')],
      hash = ''24'', auth_date = 1700000000, user = Some 123\<rparr>"

text \<open>A world whose store is still the empty file, and one with two stored records, the
  first of them last petted five hours before the clock's reading.\<close>

definition test_world :: world where
  "test_world = \<lparr>state_file = Unparsable, clock = (\<lambda>n. 1700000000 + of_nat n)\<rparr>"

definition stored_world :: world where
  "stored_world =
     \<lparr>state_file = Mapping [''456'' \<mapsto> \<lparr>happiness = 40, last_pet = 1699990000\<rparr>,
                             ''123'' \<mapsto> \<lparr>happiness = 77, last_pet = 1699982000\<rparr>],
      clock = (\<lambda>n. 1700000000)\<rparr>"

section \<open>Properties of the decay\<close>

lemma py_int_nonneg: "0 \<le> x \<Longrightarrow> py_int x = \<lfloor>x\<rfloor>"
  by (simp add: py_int_def)

lemma happiness_apply_decay:
  "happiness (apply_decay now rec) =
     max 0 (happiness rec - py_int ((now - last_pet rec) / 3600 * 4))"
  by (simp add: apply_decay_def DECAY_PER_HOUR_def)

lemma last_pet_apply_decay: "last_pet (apply_decay now rec) = last_pet rec"
  by (simp add: apply_decay_def)

text \<open>
  C2, as amended. For every record and every time \<open>now\<close> that is not earlier than the
  record's \<open>last_pet\<close>, \<open>apply_decay\<close> returns the record with
  \<open>happiness = max 0 (happiness - floor (((now - last_pet) / 3600) * 4))\<close> and with
  \<open>last_pet\<close> unchanged. (The code rounds with \<^verbatim>\<open>int()\<close>, towards zero, which is the
  floor exactly when the elapsed time is not negative.)
\<close>

theorem apply_decay_floor:
  assumes "last_pet rec \<le> now"
  shows "apply_decay now rec =
           rec\<lparr>happiness := max 0 (happiness rec - \<lfloor>((now - last_pet rec) / 3600) * 4\<rfloor>)\<rparr>
         \<and> last_pet (apply_decay now rec) = last_pet rec"
proof -
  from assms have "0 \<le> (now - last_pet rec) / 3600 * 4"
    by simp
  then have "py_int ((now - last_pet rec) / 3600 * 4) = \<lfloor>(now - last_pet rec) / 3600 * 4\<rfloor>"
    by (rule py_int_nonneg)
  then show ?thesis
    by (simp add: apply_decay_def DECAY_PER_HOUR_def)
qed

text \<open>Three hours after the last interaction a happiness of 90 has decayed to 78.\<close>

theorem apply_decay_floor_witness:
  "last_pet \<lparr>happiness = 90, last_pet = 1700000000\<rparr> \<le> 1700010800
   \<and> apply_decay 1700010800 \<lparr>happiness = 90, last_pet = 1700000000\<rparr>
       = \<lparr>happiness = 78, last_pet = 1700000000\<rparr>"
  using apply_decay_floor [of "\<lparr>happiness = 90, last_pet = 1700000000\<rparr>" 1700010800]
  by simp

text \<open>
  C2 as stated fails when \<open>now\<close> is earlier than \<open>last_pet\<close>: one second before the
  last interaction the floor of the (negative) elapsed quarter-hours is \<open>-1\<close>, so the
  stated formula gives 81, while the code, rounding towards zero, leaves 80.
\<close>

theorem apply_decay_floor_counterexample:
  "happiness (apply_decay 1699999999 \<lparr>happiness = 80, last_pet = 1700000000\<rparr>) = 80
   \<and> max 0 (happiness \<lparr>happiness = 80, last_pet = 1700000000\<rparr>
        - \<lfloor>((1699999999 - last_pet \<lparr>happiness = 80, last_pet = 1700000000\<rparr>) / 3600) * 4\<rfloor>) = 81"
  by (simp add: apply_decay_def DECAY_PER_HOUR_def py_int_def floor_eq_iff ceiling_eq_iff)

lemma max_twice_iff:
  fixes h d :: int
  assumes "0 \<le> d"
  shows "max 0 (max 0 (h - d) - d) = max 0 (h - d) \<longleftrightarrow> d = 0 \<or> h \<le> d"
  using assms by (auto simp: max_def)

text \<open>
  C3, as amended. Under a fixed clock \<open>now\<close> that is not earlier than \<open>last_pet\<close>, applying
  \<open>apply_decay\<close> to its own result gives that result again exactly when the decay
  \<open>floor (((now - last_pet) / 3600) * 4)\<close> is 0 (less than a quarter of an hour has
  elapsed) or is at least the record's happiness (the first application already reached
  0). In every other case the second application subtracts the decay once more, because
  \<open>apply_decay\<close> lowers \<open>happiness\<close> and leaves \<open>last_pet\<close> as it was.
\<close>

theorem apply_decay_twice_iff:
  assumes "last_pet rec \<le> now"
  shows "apply_decay now (apply_decay now rec) = apply_decay now rec
         \<longleftrightarrow> \<lfloor>((now - last_pet rec) / 3600) * 4\<rfloor> = 0
              \<or> happiness rec \<le> \<lfloor>((now - last_pet rec) / 3600) * 4\<rfloor>"
proof -
  let ?d = "\<lfloor>((now - last_pet rec) / 3600) * 4\<rfloor>"
  from assms have nn: "0 \<le> (now - last_pet rec) / 3600 * 4"
    by simp
  then have d: "py_int ((now - last_pet rec) / 3600 * 4) = ?d"
    by (rule py_int_nonneg)
  from nn have d0: "0 \<le> ?d"
    by simp
  have "apply_decay now (apply_decay now rec) = apply_decay now rec
        \<longleftrightarrow> happiness (apply_decay now (apply_decay now rec)) = happiness (apply_decay now rec)"
    by (cases rec) (simp add: apply_decay_def)
  also have "\<dots> \<longleftrightarrow> max 0 (max 0 (happiness rec - ?d) - ?d) = max 0 (happiness rec - ?d)"
    by (simp only: happiness_apply_decay last_pet_apply_decay d)
  also have "\<dots> \<longleftrightarrow> ?d = 0 \<or> happiness rec \<le> ?d"
    using d0 by (rule max_twice_iff)
  finally show ?thesis .
qed

text \<open>One minute after the last interaction the decay is 0 and a second application
  changes nothing.\<close>

theorem apply_decay_twice_iff_witness:
  "last_pet \<lparr>happiness = 80, last_pet = 1700000000\<rparr> \<le> 1700000060
   \<and> apply_decay 1700000060 (apply_decay 1700000060 \<lparr>happiness = 80, last_pet = 1700000000\<rparr>)
       = apply_decay 1700000060 \<lparr>happiness = 80, last_pet = 1700000000\<rparr>
   \<and> \<lfloor>((1700000060 - last_pet \<lparr>happiness = 80, last_pet = 1700000000\<rparr>) / 3600) * 4\<rfloor> = 0"
  using apply_decay_twice_iff [of "\<lparr>happiness = 80, last_pet = 1700000000\<rparr>" 1700000060]
  by (simp add: floor_eq_iff)

text \<open>
  C3 as stated fails: three hours after the last interaction one application takes a
  happiness of 90 to 78, and a second one with the same \<open>now\<close> takes it to 66.
\<close>

theorem apply_decay_twice_counterexample:
  "apply_decay 1700010800 \<lparr>happiness = 90, last_pet = 1700000000\<rparr>
     = \<lparr>happiness = 78, last_pet = 1700000000\<rparr>
   \<and> apply_decay 1700010800 (apply_decay 1700010800 \<lparr>happiness = 90, last_pet = 1700000000\<rparr>)
     = \<lparr>happiness = 66, last_pet = 1700000000\<rparr>"
  by (simp add: apply_decay_def DECAY_PER_HOUR_def py_int_def)

text \<open>
  Where the decay does not raise happiness: whenever \<open>now\<close> is later than a quarter of
  an hour before \<open>last_pet\<close>, a happiness that is not negative is not increased.
\<close>

lemma apply_decay_le:
  assumes "0 \<le> happiness rec" and "last_pet rec - 900 < now"
  shows "happiness (apply_decay now rec) \<le> happiness rec"
proof -
  have "- 1 < (now - last_pet rec) / 3600 * 4"
    using assms(2) by simp
  then have "0 \<le> py_int ((now - last_pet rec) / 3600 * 4)"
    by (auto simp: py_int_def ceiling_le_iff le_ceiling_iff)
  with assms(1) show ?thesis
    by (simp add: happiness_apply_decay)
qed

text \<open>
  C4: decay never increases happiness, also when \<open>now\<close> is earlier than \<open>last_pet\<close>. The
  code does not keep this: for a record whose \<open>last_pet\<close> lies one hour after \<open>now\<close> the
  elapsed time is \<open>-1\<close> hour, \<^verbatim>\<open>int(hours * 4)\<close> is \<open>-4\<close>, and a happiness of 80 becomes
  84.
\<close>

theorem apply_decay_future_record:
  "happiness (apply_decay 1700000000 \<lparr>happiness = 80, last_pet = 1700003600\<rparr>) = 84"
  by (simp add: apply_decay_def DECAY_PER_HOUR_def py_int_def)

text \<open>From a happiness of 100 the same record leaves the range that \<open>StateOut\<close> declares,
  and the query is answered with a server error.\<close>

lemma StateOut_future_record:
  "StateOut (apply_decay 1700000000 \<lparr>happiness = 100, last_pet = 1700003600\<rparr>)
     = Inl ResponseValidationError"
  by (simp add: StateOut_def apply_decay_def DECAY_PER_HOUR_def py_int_def)

section \<open>What the handlers compute\<close>

lemma py_int_small: "- 1 < x \<Longrightarrow> x < 1 \<Longrightarrow> py_int x = 0"
  by (auto simp: py_int_def floor_eq_iff ceiling_eq_iff)

lemma apply_decay_near:
  assumes "\<bar>now - last_pet rec\<bar> < 900" and "0 \<le> happiness rec"
  shows "apply_decay now rec = rec"
proof -
  from assms(1) have "- 1 < (now - last_pet rec) / 3600 * 4"
    and "(now - last_pet rec) / 3600 * 4 < 1"
    by simp_all
  then have "py_int ((now - last_pet rec) / 3600 * 4) = 0"
    by (rule py_int_small)
  with assms(2) show ?thesis
    by (simp add: apply_decay_def DECAY_PER_HOUR_def)
qed

lemma StateOut_Inr: "0 \<le> happiness rec \<Longrightarrow> happiness rec \<le> 100 \<Longrightarrow> StateOut rec = Inr rec"
  by (simp add: StateOut_def)

lemma snd_authenticate:
  "snd (authenticate P tok raw w) = w\<lparr>clock := (\<lambda>n. clock w (Suc n))\<rparr>"
  by (simp add: authenticate_def time_time_def split: sum.splits option.splits)

lemma state_result:
  "state P tok raw w =
     (case fst (authenticate P tok raw w) of
        Inl e \<Rightarrow> (Inl e, w\<lparr>clock := (\<lambda>n. clock w (Suc n))\<rparr>)
      | Inr uid \<Rightarrow>
          (StateOut (apply_decay (clock w 2)
                 (case read_db w uid of None \<Rightarrow> default_state (clock w 1) | Some r \<Rightarrow> r)),
           w\<lparr>clock := (\<lambda>n. clock w (Suc (Suc (Suc n))))\<rparr>))"
  using snd_authenticate [of P tok raw w]
  by (cases "authenticate P tok raw w")
     (simp add: state_def time_time_def read_db_def eval_nat_numeral
        split: sum.splits option.splits)

lemma pet_result:
  "pet P tok raw w =
     (case fst (authenticate P tok raw w) of
        Inl e \<Rightarrow> (Inl e, w\<lparr>clock := (\<lambda>n. clock w (Suc n))\<rparr>)
      | Inr uid \<Rightarrow>
          (let rec = apply_decay (clock w 2)
                 (case read_db w uid of None \<Rightarrow> default_state (clock w 1) | Some r \<Rightarrow> r);
               rec' = rec\<lparr>happiness := min 100 (happiness rec + 5), last_pet := clock w 3\<rparr>
           in (StateOut rec',
               w\<lparr>clock := (\<lambda>n. clock w (Suc (Suc (Suc (Suc n))))),
                 state_file := Mapping ((read_db w)(uid \<mapsto> rec'))\<rparr>)))"
  using snd_authenticate [of P tok raw w]
  by (cases "authenticate P tok raw w")
     (simp add: pet_def time_time_def read_db_def write_db_def BOOST_ON_PET_def Let_def
        eval_nat_numeral split: sum.splits option.splits)

lemma InitData_parse_test: "InitData_parse test_primitives ''token'' = Some test_init"
  by (simp add: InitData_parse_def test_primitives_def test_init_def)

lemma InitData_parse_forged:
  "InitData_parse test_primitives ''forged'' = Some (test_init\<lparr>hash := ''25''\<rparr>)"
  by (simp add: InitData_parse_def test_primitives_def test_init_def)

lemma data_check_string_test:
  "data_check_string (token_fields test_init)
     = ''auth_date=1700000000'' @ [CHR 0x0A] @ ''user=u123''"
  by (simp add: data_check_string_def test_init_def)

lemma sign_test: "sign test_primitives ''secret'' test_init = ''24''"
  by (simp add: sign_def data_check_string_test)
     (simp add: test_primitives_def hexdigest_def hex_digit_def)

lemma get_init_data_test:
  "now \<le> 1700003600 \<Longrightarrow>
     get_init_data test_primitives ''token'' ''secret'' lifetime_default now = Inr test_init"
  by (simp add: get_init_data_def InitData_parse_test InitData_validate_def verify_parsed_def
      sign_test lifetime_default_def)
     (simp add: test_init_def)

lemma str_123: "str 123 = ''123''"
  by code_simp

lemma authenticate_test:
  "clock w 0 \<le> 1700003600 \<Longrightarrow>
     fst (authenticate test_primitives ''secret'' ''token'' w) = Inr ''123''"
  by (simp add: authenticate_def time_time_def get_init_data_test)
     (simp add: test_init_def str_123)

section \<open>The interaction\<close>

text \<open>
  C6. Whatever record is stored for the caller (or none), and whatever the clock reads,
  an authenticated \<^verbatim>\<open>/pet\<close> request applies the decay, then
  \<open>happiness := min 100 (happiness + 5)\<close>, then \<open>last_pet := now\<close>: the record it stores
  and returns has a happiness in 0..100, so in particular for every prior happiness in
  0..100 and every elapsed time that is not negative.
\<close>

theorem pet_happiness_in_range:
  assumes "fst (authenticate P tok raw w) = Inr uid"
  shows "\<exists>rec. fst (pet P tok raw w) = Inr rec
           \<and> read_db (snd (pet P tok raw w)) uid = Some rec
           \<and> 0 \<le> happiness rec \<and> happiness rec \<le> 100
           \<and> last_pet rec = clock w 3"
proof -
  let ?old = "case read_db w uid of None \<Rightarrow> default_state (clock w 1) | Some r \<Rightarrow> r"
  let ?rec = "apply_decay (clock w 2) ?old"
  let ?rec' = "?rec\<lparr>happiness := min 100 (happiness ?rec + 5), last_pet := clock w 3\<rparr>"
  have "0 \<le> happiness ?rec"
    by (simp add: happiness_apply_decay)
  then have lower: "0 \<le> happiness ?rec'" and upper: "happiness ?rec' \<le> 100"
    by simp_all
  then have "StateOut ?rec' = Inr ?rec'"
    by (rule StateOut_Inr)
  then have "fst (pet P tok raw w) = Inr ?rec'"
    and "read_db (snd (pet P tok raw w)) uid = Some ?rec'"
    by (simp_all add: pet_result assms Let_def read_db_def)
  with lower upper show ?thesis
    by (intro exI [of _ ?rec']) simp
qed

text \<open>The caller's stored happiness of 77 is five hours old: decayed to 57, boosted to 62.\<close>

theorem pet_happiness_in_range_witness:
  "fst (authenticate test_primitives ''secret'' ''token'' stored_world) = Inr ''123''
   \<and> fst (pet test_primitives ''secret'' ''token'' stored_world)
       = Inr \<lparr>happiness = 62, last_pet = 1700000000\<rparr>
   \<and> read_db (snd (pet test_primitives ''secret'' ''token'' stored_world)) ''123''
       = Some \<lparr>happiness = 62, last_pet = 1700000000\<rparr>
   \<and> 0 \<le> happiness \<lparr>happiness = 62, last_pet = 1700000000\<rparr>
   \<and> happiness \<lparr>happiness = 62, last_pet = 1700000000\<rparr> \<le> 100"
proof -
  have a: "fst (authenticate test_primitives ''secret'' ''token'' stored_world) = Inr ''123''"
    by (rule authenticate_test) (simp add: stored_world_def)
  have run: "fst (pet test_primitives ''secret'' ''token'' stored_world)
       = Inr \<lparr>happiness = 62, last_pet = 1700000000\<rparr>"
    by (simp add: pet_result a Let_def)
       (simp add: stored_world_def read_db_def apply_decay_def DECAY_PER_HOUR_def py_int_def
          StateOut_def)
  from pet_happiness_in_range [OF a] run a show ?thesis
    by auto
qed

section \<open>Frame properties of the handlers\<close>

text \<open>
  C7. A \<^verbatim>\<open>/state\<close> request leaves the file as it was, whether the caller is rejected,
  has a stored record or has none; what it returns to an authenticated caller is the
  decay of the stored record, or of the default record made for the occasion, which is
  not written anywhere.
\<close>

theorem state_leaves_store:
  "state_file (snd (state P tok raw w)) = state_file w
   \<and> fst (state P tok raw w) =
       (case fst (authenticate P tok raw w) of
          Inl e \<Rightarrow> Inl e
        | Inr uid \<Rightarrow>
            StateOut (apply_decay (clock w 2)
              (case read_db w uid of None \<Rightarrow> default_state (clock w 1) | Some r \<Rightarrow> r)))"
  by (simp add: state_result split: sum.splits)

text \<open>A stored happiness of 77, last petted five hours ago, is reported as 57 and stays
  77 in the store; a caller with no record is reported the default and gets no record.\<close>

theorem state_leaves_store_witness:
  "read_db stored_world ''123'' = Some \<lparr>happiness = 77, last_pet = 1700000000 - 5 * 3600\<rparr>
   \<and> fst (state test_primitives ''secret'' ''token'' stored_world)
       = Inr \<lparr>happiness = 57, last_pet = 1700000000 - 5 * 3600\<rparr>
   \<and> state_file (snd (state test_primitives ''secret'' ''token'' stored_world))
       = state_file stored_world
   \<and> fst (state test_primitives ''secret'' ''token'' test_world)
       = Inr \<lparr>happiness = 80, last_pet = 1700000001\<rparr>
   \<and> state_file (snd (state test_primitives ''secret'' ''token'' test_world)) = Unparsable"
proof -
  have a: "fst (authenticate test_primitives ''secret'' ''token'' stored_world) = Inr ''123''"
    by (rule authenticate_test) (simp add: stored_world_def)
  have b: "fst (authenticate test_primitives ''secret'' ''token'' test_world) = Inr ''123''"
    by (rule authenticate_test) (simp add: test_world_def)
  have d: "StateOut (apply_decay 1700000000 \<lparr>happiness = 77, last_pet = 1699982000\<rparr>)
          = Inr \<lparr>happiness = 57, last_pet = 1699982000\<rparr>"
    by (simp add: apply_decay_def DECAY_PER_HOUR_def py_int_def StateOut_def)
  have "apply_decay 1700000002 (default_state 1700000001) = default_state 1700000001"
    by (rule apply_decay_near) (simp_all add: default_state_def)
  then have e: "StateOut (apply_decay 1700000002 (default_state 1700000001))
          = Inr \<lparr>happiness = 80, last_pet = 1700000001\<rparr>"
    by (simp add: StateOut_def default_state_def)
  have s: "read_db stored_world ''123'' = Some \<lparr>happiness = 77, last_pet = 1699982000\<rparr>"
    and s': "read_db test_world ''123'' = None"
    and c: "clock stored_world 2 = 1700000000"
    and c': "clock test_world 2 = 1700000002" "clock test_world 1 = 1700000001"
    and f: "state_file test_world = Unparsable"
    by (simp_all add: stored_world_def test_world_def read_db_def)
  from state_leaves_store [of test_primitives "''secret''" "''token''" stored_world]
  have stored: "state_file (snd (state test_primitives ''secret'' ''token'' stored_world))
       = state_file stored_world
     \<and> fst (state test_primitives ''secret'' ''token'' stored_world)
       = Inr \<lparr>happiness = 57, last_pet = 1699982000\<rparr>"
    unfolding a s c sum.case option.case d .
  from state_leaves_store [of test_primitives "''secret''" "''token''" test_world]
  have fresh: "state_file (snd (state test_primitives ''secret'' ''token'' test_world))
       = Unparsable
     \<and> fst (state test_primitives ''secret'' ''token'' test_world)
       = Inr \<lparr>happiness = 80, last_pet = 1700000001\<rparr>"
    unfolding b s' c' sum.case option.case e f .
  from stored fresh s show ?thesis
    by simp
qed

text \<open>
  C10. A \<^verbatim>\<open>/pet\<close> request of the identity \<open>u\<close> rewrites the whole mapping, and yet the
  entry of every other identity \<open>v\<close> read back afterwards is the entry read before: the
  same record when \<open>v\<close> had one, none when it had none.
\<close>

theorem pet_frame:
  assumes "fst (authenticate P tok raw w) = Inr u" and "v \<noteq> u"
  shows "read_db (snd (pet P tok raw w)) v = read_db w v"
  using assms by (simp add: pet_result Let_def read_db_def)

theorem pet_frame_witness:
  "fst (authenticate test_primitives ''secret'' ''token'' stored_world) = Inr ''123''
   \<and> ''456'' \<noteq> ''123''
   \<and> read_db stored_world ''456'' = Some \<lparr>happiness = 40, last_pet = 1699990000\<rparr>
   \<and> read_db (snd (pet test_primitives ''secret'' ''token'' stored_world)) ''456''
       = Some \<lparr>happiness = 40, last_pet = 1699990000\<rparr>"
proof -
  have a: "fst (authenticate test_primitives ''secret'' ''token'' stored_world) = Inr ''123''"
    by (rule authenticate_test) (simp add: stored_world_def)
  have n: "''456'' \<noteq> ''123''"
    by simp
  have r: "read_db stored_world ''456'' = Some \<lparr>happiness = 40, last_pet = 1699990000\<rparr>"
    by (simp add: stored_world_def read_db_def)
  from pet_frame [OF a n] a n r show ?thesis
    by simp
qed

section \<open>A fresh identity\<close>



section \<open>Verification of the token\<close>





text \<open>
  The data-check string is canonical: it depends on the set of fields, not on the order
  in which a token lists them, as long as no key occurs twice.
\<close>

lemma sort_key_fst_unique:
  fixes fs fs' :: "('k::linorder \<times> 'v) list"
  assumes "distinct (map fst fs)" and "distinct (map fst fs')" and "set fs = set fs'"
  shows "sort_key fst fs = sort_key fst fs'"
proof -
  have inj: "inj_on fst (set fs)"
    using assms(1) by (simp add: distinct_map)
  have "map fst (sort_key fst fs) = map fst (sort_key fst fs')"
  proof (rule sorted_distinct_set_unique)
    show "sorted (map fst (sort_key fst fs))" "sorted (map fst (sort_key fst fs'))"
      by simp_all
    show "distinct (map fst (sort_key fst fs))"
      using assms(1) by (simp add: distinct_map)
    show "distinct (map fst (sort_key fst fs'))"
      using assms(2) by (simp add: distinct_map)
    show "set (map fst (sort_key fst fs)) = set (map fst (sort_key fst fs'))"
      using assms(3) by simp
  qed
  moreover have "set (sort_key fst fs) \<union> set (sort_key fst fs') \<subseteq> set fs"
    using assms(3) by simp
  ultimately show ?thesis
    using inj by (meson inj_on_map_eq_map inj_on_subset)
qed

lemma data_check_string_canonical:
  assumes "distinct (map fst fs)" and "distinct (map fst fs')" and "set fs = set fs'"
  shows "data_check_string fs = data_check_string fs'"
  using sort_key_fst_unique [OF assms] by (simp add: data_check_string_def)



section \<open>The two kinds of rejection\<close>

text \<open>
  C5. \<^verbatim>\<open>get_init_data\<close> fails in exactly two ways, with different status codes. A raw
  string that does not parse, has no field or has no \<open>hash\<close> field is answered 400. A
  well-formed token whose hash does not match, or whose \<open>auth_date\<close> lies more than the
  lifetime before \<open>now\<close>, is answered 403, the expired one also when its hash is right,
  and both with the one message \<open>initData signature invalid or expired\<close>. The handlers
  pass the error on unchanged and use the default lifetime of 3600 seconds.
\<close>

theorem get_init_data_failures:
  "(parse_qsl P raw = None \<or> parse_qsl P raw = Some []
      \<or> (\<exists>fs. parse_qsl P raw = Some fs \<and> map_of fs ''hash'' = None) \<longrightarrow>
      get_init_data P raw tok lifetime now
        = Inl (HTTPException 400 detail_malformed))
   \<and> (InitData_parse P raw = Some init
       \<and> (hash init \<noteq> sign P tok init \<or> of_int (auth_date init + lifetime) < now) \<longrightarrow>
      get_init_data P raw tok lifetime now
        = Inl (HTTPException 403 detail_forbidden))
   \<and> (get_init_data P raw tok lifetime now = Inl e \<longrightarrow>
        e = HTTPException 400 detail_malformed \<or> e = HTTPException 403 detail_forbidden)
   \<and> HTTPException 400 detail_malformed \<noteq> HTTPException 403 detail_forbidden
   \<and> detail_forbidden = ''initData signature invalid or expired''
   \<and> (get_init_data P raw tok 3600 (clock w 0) = Inl e \<longrightarrow>
        fst (authenticate P tok raw w) = Inl e
        \<and> fst (state P tok raw w) = Inl e \<and> fst (pet P tok raw w) = Inl e)"
proof (intro conjI impI)
  assume "parse_qsl P raw = None \<or> parse_qsl P raw = Some []
      \<or> (\<exists>fs. parse_qsl P raw = Some fs \<and> map_of fs ''hash'' = None)"
  then have "InitData_parse P raw = None"
    by (auto simp: InitData_parse_def)
  then show "get_init_data P raw tok lifetime now = Inl (HTTPException 400 detail_malformed)"
    by (simp add: get_init_data_def HTTP_400_BAD_REQUEST_def)
next
  assume "InitData_parse P raw = Some init
       \<and> (hash init \<noteq> sign P tok init \<or> of_int (auth_date init + lifetime) < now)"
  then show "get_init_data P raw tok lifetime now = Inl (HTTPException 403 detail_forbidden)"
    by (auto simp: get_init_data_def InitData_validate_def verify_parsed_def
        HTTP_403_FORBIDDEN_def)
next
  assume "get_init_data P raw tok lifetime now = Inl e"
  then show "e = HTTPException 400 detail_malformed \<or> e = HTTPException 403 detail_forbidden"
    by (auto simp: get_init_data_def HTTP_400_BAD_REQUEST_def HTTP_403_FORBIDDEN_def
        split: option.splits if_splits)
next
  show "HTTPException 400 detail_malformed \<noteq> HTTPException 403 detail_forbidden"
    by simp
next
  show "detail_forbidden = ''initData signature invalid or expired''"
    by (rule detail_forbidden_def)
next
  assume "get_init_data P raw tok 3600 (clock w 0) = Inl e"
  then show a: "fst (authenticate P tok raw w) = Inl e"
    by (simp add: authenticate_def time_time_def lifetime_default_def)
  then show "fst (state P tok raw w) = Inl e" and "fst (pet P tok raw w) = Inl e"
    by (simp_all add: state_result pet_result)
qed

text \<open>
  Five raw strings under the stand-in primitives: one that does not parse, the empty
  one, one without \<open>hash\<close>, one with a wrong hash, and the rightly signed one read more
  than an hour after it was issued.
\<close>

theorem get_init_data_failures_witness:
  "parse_qsl test_primitives ''not a query string'' = None
   \<and> get_init_data test_primitives ''not a query string'' ''secret'' 3600 1700000060
       = Inl (HTTPException 400 detail_malformed)
   \<and> parse_qsl test_primitives [] = Some []
   \<and> get_init_data test_primitives [] ''secret'' 3600 1700000060
       = Inl (HTTPException 400 detail_malformed)
   \<and> map_of [(''user'', ''u123''), (''auth_date'', ''1700000000'')] ''hash'' = None
   \<and> get_init_data test_primitives ''unsigned'' ''secret'' 3600 1700000060
       = Inl (HTTPException 400 detail_malformed)
   \<and> hash (test_init\<lparr>hash := ''25''\<rparr>)
       \<noteq> sign test_primitives ''secret'' (test_init\<lparr>hash := ''25''\<rparr>)
   \<and> get_init_data test_primitives ''forged'' ''secret'' 3600 1700000060
       = Inl (HTTPException 403 detail_forbidden)
   \<and> hash test_init = sign test_primitives ''secret'' test_init
   \<and> of_int (auth_date test_init + 3600) < (1700003601 :: rat)
   \<and> get_init_data test_primitives ''token'' ''secret'' 3600 1700003601
       = Inl (HTTPException 403 detail_forbidden)
   \<and> fst (pet test_primitives ''secret'' ''token''
           \<lparr>state_file = Unparsable, clock = (\<lambda>n. 1700003601)\<rparr>)
       = Inl (HTTPException 403 detail_forbidden)"
proof -
  let ?late = "\<lparr>state_file = Unparsable, clock = (\<lambda>n. 1700003601)\<rparr>"
  have q1: "parse_qsl test_primitives ''not a query string'' = None"
    and q2: "parse_qsl test_primitives [] = Some []"
    and q3: "parse_qsl test_primitives ''unsigned''
               = Some [(''user'', ''u123''), (''auth_date'', ''1700000000'')]"
    and m3: "map_of [(''user'', ''u123''), (''auth_date'', ''1700000000'')] ''hash'' = None"
    by (simp_all add: test_primitives_def)
  have "sign test_primitives ''secret'' (test_init\<lparr>hash := ''25''\<rparr>) = ''24''"
    using sign_test by (simp add: sign_def)
  then have s4: "hash (test_init\<lparr>hash := ''25''\<rparr>)
              \<noteq> sign test_primitives ''secret'' (test_init\<lparr>hash := ''25''\<rparr>)"
    by simp
  have s5: "hash test_init = sign test_primitives ''secret'' test_init"
    by (simp add: sign_test) (simp add: test_init_def)
  have e5: "of_int (auth_date test_init + 3600) < (1700003601 :: rat)"
    by (simp add: test_init_def)
  have c: "clock ?late 0 = 1700003601"
    by simp
  from q1 get_init_data_failures [of test_primitives "''not a query string''" "''secret''" 3600
      1700000060]
  have r1: "get_init_data test_primitives ''not a query string'' ''secret'' 3600 1700000060
       = Inl (HTTPException 400 detail_malformed)"
    by blast
  from q2 get_init_data_failures [of test_primitives "[]" "''secret''" 3600 1700000060]
  have r2: "get_init_data test_primitives [] ''secret'' 3600 1700000060
       = Inl (HTTPException 400 detail_malformed)"
    by blast
  from q3 m3 get_init_data_failures [of test_primitives "''unsigned''" "''secret''" 3600
      1700000060]
  have r3: "get_init_data test_primitives ''unsigned'' ''secret'' 3600 1700000060
       = Inl (HTTPException 400 detail_malformed)"
    by blast
  from s4 InitData_parse_forged
    get_init_data_failures [of test_primitives "''forged''" "''secret''" 3600 1700000060
      "test_init\<lparr>hash := ''25''\<rparr>"]
  have r4: "get_init_data test_primitives ''forged'' ''secret'' 3600 1700000060
       = Inl (HTTPException 403 detail_forbidden)"
    by blast
  from e5 InitData_parse_test
    get_init_data_failures [of test_primitives "''token''" "''secret''" 3600 1700003601 test_init]
  have r5: "get_init_data test_primitives ''token'' ''secret'' 3600 1700003601
       = Inl (HTTPException 403 detail_forbidden)"
    by blast
  then have "get_init_data test_primitives ''token'' ''secret'' 3600 (clock ?late 0)
       = Inl (HTTPException 403 detail_forbidden)"
    unfolding c .
  with get_init_data_failures [of test_primitives "''token''" "''secret''" 3600 1700003601
      test_init "HTTPException 403 detail_forbidden" ?late]
  have r6: "fst (pet test_primitives ''secret'' ''token'' ?late)
       = Inl (HTTPException 403 detail_forbidden)"
    by blast
  from q1 q2 m3 s4 s5 e5 r1 r2 r3 r4 r5 r6 show ?thesis
    by blast
qed

end
